theory Spec2Isabelle
  imports Main "HOL-Library.Log_Nat"
begin

section \<open>Python values used by the listing pipeline\<close>

subsection \<open>Floats\<close>

text \<open>
  A Python \<open>float\<close> is an IEEE 754 binary64 value: a finite double (given by its exact
  rational value), an infinity or a NaN. The two signed zeros are identified: they compare
  equal in Python, both are falsy, and the pipeline never divides by a zero.
\<close>

datatype pyfloat = Fin rat | PInf | NInf | NaN

definition pow2 :: "int \<Rightarrow> rat" where
  "pow2 k = (if 0 \<le> k then 2 ^ nat k else 1 / 2 ^ nat (- k))"

definition round_half_even :: "rat \<Rightarrow> int" where
  "round_half_even x =
     (let f = \<lfloor>x\<rfloor>; d = x - of_int f
      in if d < 1 / 2 then f else if 1 / 2 < d then f + 1 else if even f then f else f + 1)"

text \<open>The binary exponent of a positive rational: the \<open>e\<close> with \<open>2^e \<le> a < 2^(e+1)\<close>.\<close>

definition ilog2 :: "rat \<Rightarrow> int" where
  "ilog2 a = (if 1 \<le> a then int (floorlog 2 (nat \<lfloor>a\<rfloor>)) - 1
              else - int (floorlog 2 (nat (\<lceil>1 / a\<rceil> - 1))))"

text \<open>
  \<open>fl\<close> rounds an exact result to the nearest double, ties to even: a significand of
  53 bits at the exponent of the value, the subnormal spacing \<open>2^-1074\<close> below
  \<open>2^-1022\<close>, and an infinity when the rounded value reaches \<open>2^1024\<close> (exponent
  above 1023, or the significand rounded up to \<open>2^53\<close> at exponent 1023).
  Every float operation of the source is the exact operation followed by \<open>fl\<close>.
\<close>

definition fl :: "rat \<Rightarrow> pyfloat" where
  "fl x =
     (if x = 0 then Fin 0
      else let a = \<bar>x\<bar>;
               e = max (ilog2 a) (- 1022);
               q = pow2 (e - 52);
               n = round_half_even (a / q)
           in if 1023 < e \<or> (e = 1023 \<and> 2 ^ 53 \<le> n)
              then (if 0 < x then PInf else NInf)
              else Fin (if 0 < x then of_int n * q else - (of_int n * q)))"

datatype exn =
    TypeError
  | ValueError string
  | ZeroDivisionError
  | RegexError
  | FetchError string

fun fneg :: "pyfloat \<Rightarrow> pyfloat" where
  "fneg (Fin x) = Fin (- x)"
| "fneg PInf = NInf"
| "fneg NInf = PInf"
| "fneg NaN = NaN"

fun fadd :: "pyfloat \<Rightarrow> pyfloat \<Rightarrow> pyfloat" where
  "fadd (Fin x) (Fin y) = fl (x + y)"
| "fadd NaN _ = NaN"
| "fadd _ NaN = NaN"
| "fadd PInf NInf = NaN"
| "fadd NInf PInf = NaN"
| "fadd PInf _ = PInf"
| "fadd NInf _ = NInf"
| "fadd (Fin x) b = b"

definition fsub :: "pyfloat \<Rightarrow> pyfloat \<Rightarrow> pyfloat" where
  "fsub a b = fadd a (fneg b)"

definition signed_inf :: "bool \<Rightarrow> pyfloat" where
  "signed_inf positive = (if positive then PInf else NInf)"

fun fmul :: "pyfloat \<Rightarrow> pyfloat \<Rightarrow> pyfloat" where
  "fmul (Fin x) (Fin y) = fl (x * y)"
| "fmul NaN _ = NaN"
| "fmul _ NaN = NaN"
| "fmul (Fin x) b = (if x = 0 then NaN else signed_inf ((0 < x) = (b = PInf)))"
| "fmul a (Fin y) = (if y = 0 then NaN else signed_inf ((0 < y) = (a = PInf)))"
| "fmul PInf PInf = PInf"
| "fmul NInf NInf = PInf"
| "fmul PInf NInf = NInf"
| "fmul NInf PInf = NInf"

text \<open>Python's \<open>/\<close> raises \<open>ZeroDivisionError\<close> on a zero divisor, whatever the dividend.\<close>

fun fdiv :: "pyfloat \<Rightarrow> pyfloat \<Rightarrow> exn + pyfloat" where
  "fdiv a (Fin y) =
     (if y = 0 then Inl ZeroDivisionError
      else case a of
             Fin x \<Rightarrow> Inr (fl (x / y))
           | NaN \<Rightarrow> Inr NaN
           | _ \<Rightarrow> Inr (signed_inf ((0 < y) = (a = PInf))))"
| "fdiv a NaN = Inr NaN"
| "fdiv (Fin x) b = Inr (Fin 0)"
| "fdiv a b = Inr NaN"

fun flt :: "pyfloat \<Rightarrow> pyfloat \<Rightarrow> bool" where
  "flt (Fin x) (Fin y) = (x < y)"
| "flt NaN _ = False"
| "flt _ NaN = False"
| "flt NInf NInf = False"
| "flt NInf _ = True"
| "flt PInf _ = False"
| "flt (Fin x) PInf = True"
| "flt (Fin x) NInf = False"

fun fge :: "pyfloat \<Rightarrow> pyfloat \<Rightarrow> bool" where
  "fge (Fin x) (Fin y) = (y \<le> x)"
| "fge NaN _ = False"
| "fge _ NaN = False"
| "fge PInf _ = True"
| "fge NInf NInf = True"
| "fge NInf _ = False"
| "fge (Fin x) NInf = True"
| "fge (Fin x) PInf = False"

text \<open>Truth value of a float in a condition (\<open>if total_cost\<close>): false exactly for zero.\<close>

fun ftruthy :: "pyfloat \<Rightarrow> bool" where
  "ftruthy (Fin x) = (x \<noteq> 0)"
| "ftruthy _ = True"

text \<open>
  \<open>round(x, 2)\<close>: CPython writes the exact value of the double with two decimals, correctly
  rounded (ties to even), and reads that decimal back as a double. Infinities and NaN
  round to themselves.
\<close>

fun py_round2 :: "pyfloat \<Rightarrow> pyfloat" where
  "py_round2 (Fin x) = fl (of_int (round_half_even (x * 100)) / 100)"
| "py_round2 a = a"

subsection \<open>Strings\<close>

text \<open>
  Strings are byte strings holding ASCII text; \<open>str.upper\<close> and \<open>str.lower\<close> change
  the ASCII letters and leave every other byte alone.
\<close>

definition upper_char :: "char \<Rightarrow> char" where
  "upper_char c =
     (let n = (of_char c :: nat) in if 97 \<le> n \<and> n \<le> 122 then char_of (n - 32) else c)"

definition lower_char :: "char \<Rightarrow> char" where
  "lower_char c =
     (let n = (of_char c :: nat) in if 65 \<le> n \<and> n \<le> 90 then char_of (n + 32) else c)"

definition upper :: "string \<Rightarrow> string" where
  "upper s = map upper_char s"

definition lower :: "string \<Rightarrow> string" where
  "lower s = map lower_char s"

text \<open>\<open>x or ''\<close> on an optional string, and the truth value of an optional string.\<close>

fun or_empty :: "string option \<Rightarrow> string" where
  "or_empty None = []"
| "or_empty (Some s) = s"

fun truthy :: "string option \<Rightarrow> bool" where
  "truthy None = False"
| "truthy (Some s) = (s \<noteq> [])"

section \<open>Data model\<close>

text \<open>
  A listing is the dictionary a fetcher's \<open>_simplify_item\<close> builds. The keys
  \<open>marketplace\<close>, \<open>listing_id\<close>, \<open>title\<close> and \<open>url\<close>, which the pipeline reads by
  subscript, are always set by the fetchers (possibly to \<open>None\<close>, except the marketplace
  tag); the keys read through \<open>dict.get\<close> may be missing, hold \<open>None\<close> or hold a value.
  The keys \<open>currency\<close> and \<open>location\<close> are never read by the pipeline.
\<close>

datatype 'a field = Absent | Null | Val 'a

text \<open>\<open>d.get(k)\<close>: a missing key reads as \<open>None\<close>.\<close>

fun get :: "'a field \<Rightarrow> 'a option" where
  "get (Val v) = Some v"
| "get _ = None"

record listing =
  marketplace :: string
  listing_id :: "string option"
  title :: "string option"
  url :: "string option"
  brand :: "string field"
  model :: "string field"
  condition :: "string field"
  price :: "pyfloat field"
  shipping_cost :: "pyfloat field"

record settings =
  ENABLE_EBAY :: bool
  ENABLE_VINTED :: bool
  WA_PHONE_ID :: "string option"
  WA_TOKEN :: "string option"
  TWILIO_ACCOUNT_SID :: "string option"
  TWILIO_AUTH_TOKEN :: "string option"
  TWILIO_WHATSAPP_FROM :: "string option"
  PROFIT_MIN :: pyfloat
  MARGIN_MIN_PERCENT :: pyfloat
  REGEX_INCLUDE :: "string option"
  REGEX_EXCLUDE :: "string option"
  CURRENCY :: string
  VALUATION_STRATEGY :: string
  SHIPPING_TABLE_JSON :: "string option"

text \<open>A decoded JSON document, as \<open>json.loads\<close> returns it.\<close>

datatype jsonv =
    JObject "(string \<times> jsonv) list"
  | JArray "jsonv list"
  | JString string
  | JInt int
  | JFloat pyfloat
  | JBool bool
  | JNull

text \<open>
  What lies outside the program: the answers of the two marketplaces in this cycle, the
  outcome of the two message transports, the clock, and the library routines (regular
  expressions, JSON decoding, parsing and printing of floats).
\<close>

record world =
  ebay_fetch :: "exn + listing list"
  vinted_fetch :: "exn + listing list"
  send_cloud :: "string \<Rightarrow> bool"
  send_twilio :: "string \<Rightarrow> bool"
  utcnow :: "nat \<Rightarrow> string"
  re_compile :: "string \<Rightarrow> (string \<Rightarrow> bool) option"
  json_loads :: "string \<Rightarrow> jsonv option"
  float_of_str :: "string \<Rightarrow> pyfloat option"
  fmt2f :: "pyfloat \<Rightarrow> string"

section \<open>seen\_store.py\<close>

text \<open>
  The table \<open>seen\<close>: rows \<open>(marketplace, listing_id, seen_at)\<close>. \<open>has_seen\<close> is the
  \<open>SELECT\<close> on the key; \<open>mark_seen\<close> is \<open>INSERT OR REPLACE\<close>, which deletes the rows that
  conflict on the primary key and then inserts the new row. The timestamp
  \<open>datetime.utcnow().isoformat()\<close> is passed in.
\<close>

type_synonym row = "string \<times> string \<times> string"

definition row_key :: "row \<Rightarrow> string \<times> string" where
  "row_key r = (fst r, fst (snd r))"

definition has_seen :: "row list \<Rightarrow> string \<Rightarrow> string \<Rightarrow> bool" where
  "has_seen db m i = ((m, i) \<in> set (map row_key db))"

definition mark_seen :: "row list \<Rightarrow> string \<Rightarrow> string \<Rightarrow> string \<Rightarrow> row list" where
  "mark_seen db m i now = filter (\<lambda>r. row_key r \<noteq> (m, i)) db @ [(m, i, now)]"

text \<open>A sequence of \<open>mark_seen\<close> calls, each with its key and timestamp.\<close>

fun mark_all :: "row list \<Rightarrow> row list \<Rightarrow> row list" where
  "mark_all db [] = db"
| "mark_all db ((m, i, now) # cs) = mark_all (mark_seen db m i now) cs"

section \<open>valuation.py\<close>

definition compute_buyer_protection_cost :: "pyfloat \<Rightarrow> settings \<Rightarrow> pyfloat" where
  "compute_buyer_protection_cost p s = py_round2 (fmul p (fl (1 / 20)))"

text \<open>\<open>float(v)\<close> on a decoded JSON value; \<open>None\<close> when it raises.\<close>

fun py_float :: "world \<Rightarrow> jsonv \<Rightarrow> pyfloat option" where
  "py_float w (JFloat x) = Some x"
| "py_float w (JInt i) = (case fl (of_int i) of Fin x \<Rightarrow> Some (Fin x) | _ \<Rightarrow> None)"
| "py_float w (JBool b) = Some (Fin (if b then 1 else 0))"
| "py_float w (JString t) = float_of_str w t"
| "py_float w _ = None"

text \<open>
  \<open>lookup_shipping_cost\<close>: the listing's own cost if it is not \<open>None\<close>; else the
  \<open>default\<close> entry of the configured table (\<open>0.0\<close> when the table has none); every
  exception while reading the table is swallowed and gives \<open>None\<close>.
\<close>

definition lookup_shipping_cost :: "world \<Rightarrow> listing \<Rightarrow> settings \<Rightarrow> pyfloat option" where
  "lookup_shipping_cost w l s =
     (case get (shipping_cost l) of
        Some x \<Rightarrow> Some (py_round2 x)
      | None \<Rightarrow>
          if truthy (SHIPPING_TABLE_JSON s) then
            (case json_loads w (or_empty (SHIPPING_TABLE_JSON s)) of
               Some (JObject kvs) \<Rightarrow>
                 (case map_of kvs ''default'' of
                    None \<Rightarrow> Some (py_round2 (Fin 0))
                  | Some v \<Rightarrow> map_option py_round2 (py_float w v))
             | _ \<Rightarrow> None)
          else None)"

definition static_prices :: "(string \<times> pyfloat) list" where
  "static_prices = [(''cobra|king ltdx'', Fin 130), (''scotty cameron|phantom x'', Fin 240)]"

definition estimate_resale_value :: "listing \<Rightarrow> settings \<Rightarrow> exn + pyfloat option" where
  "estimate_resale_value l s =
     (case get (price l) of
        None \<Rightarrow> Inr None
      | Some p \<Rightarrow>
          let strategy = upper (VALUATION_STRATEGY s) in
          if strategy = ''A'' then Inr (Some (py_round2 (fmul p (Fin (3 / 2)))))
          else if strategy = ''B'' then
            Inr (map_of static_prices
                   (lower (or_empty (get (brand l))) @ ''|'' @ lower (or_empty (get (model l)))))
          else if strategy = ''C'' then Inr (Some (py_round2 (fmul p (Fin (3 / 2)))))
          else Inl (ValueError (''Unknown valuation strategy: '' @ strategy)))"

type_synonym breakdown =
  "pyfloat \<times> pyfloat \<times> pyfloat \<times> pyfloat \<times> pyfloat \<times> pyfloat \<times> pyfloat"

text \<open>
  \<open>float(listing.get("price", 0.0))\<close>: the default \<open>0.0\<close> stands in for a missing key
  only; a key that holds \<open>None\<close> reaches \<open>float(None)\<close>, which raises \<open>TypeError\<close>.
\<close>

fun price_or_zero :: "pyfloat field \<Rightarrow> exn + pyfloat" where
  "price_or_zero Absent = Inr (Fin 0)"
| "price_or_zero Null = Inl TypeError"
| "price_or_zero (Val p) = Inr p"

definition profit_and_margin :: "pyfloat option \<Rightarrow> pyfloat \<Rightarrow> exn + pyfloat \<times> pyfloat" where
  "profit_and_margin resale total_cost =
     (case resale of
        None \<Rightarrow> Inr (Fin 0, Fin 0)
      | Some v \<Rightarrow>
          let profit = py_round2 (fsub v total_cost) in
          if ftruthy total_cost then
            (case fdiv profit total_cost of
               Inl e \<Rightarrow> Inl e
             | Inr r \<Rightarrow> Inr (profit, py_round2 (fmul r (Fin 100))))
          else Inr (profit, Fin 0))"

definition compute_profit :: "world \<Rightarrow> listing \<Rightarrow> settings \<Rightarrow> exn + breakdown" where
  "compute_profit w l s =
     (case price_or_zero (price l) of
        Inl e \<Rightarrow> Inl e
      | Inr p \<Rightarrow>
          let product_cost = py_round2 p;
              buyer_protection_cost = compute_buyer_protection_cost product_cost s;
              shipping = lookup_shipping_cost w l s;
              base = fadd product_cost buyer_protection_cost;
              total_cost = (case shipping of None \<Rightarrow> base | Some c \<Rightarrow> fadd base c)
          in (case estimate_resale_value l s of
                Inl e \<Rightarrow> Inl e
              | Inr resale \<Rightarrow>
                  (case profit_and_margin resale total_cost of
                     Inl e \<Rightarrow> Inl e
                   | Inr (profit, margin_percent) \<Rightarrow>
                       Inr (py_round2 product_cost,
                            py_round2 buyer_protection_cost,
                            (case shipping of None \<Rightarrow> Fin 0 | Some c \<Rightarrow> py_round2 c),
                            py_round2 total_cost,
                            (case resale of None \<Rightarrow> Fin 0 | Some v \<Rightarrow> py_round2 v),
                            py_round2 profit,
                            py_round2 margin_percent))))"

section \<open>whatsapp.py\<close>

text \<open>
  The non-ASCII text of the message template, as bytes: the pound sign, and the two
  escaped surrogate pairs that open the last line of the message.
\<close>

definition pound_sign :: string where
  "pound_sign = [CHR 0xC2, CHR 0xA3]"

definition good_mark :: string where
  "good_mark = [CHR 0xED, CHR 0xA0, CHR 0xBD, CHR 0xED, CHR 0xB4, CHR 0xB5]"

definition bad_mark :: string where
  "bad_mark = [CHR 0xED, CHR 0xA0, CHR 0xBD, CHR 0xED, CHR 0xBF, CHR 0xA4]"

text \<open>How an f-string prints an optional string: \<open>None\<close> prints as the word.\<close>

fun str_of :: "string option \<Rightarrow> string" where
  "str_of None = ''None''"
| "str_of (Some t) = t"

fun condition_text :: "string field \<Rightarrow> string" where
  "condition_text Absent = ''Unknown''"
| "condition_text Null = ''None''"
| "condition_text (Val c) = c"

definition format_message :: "world \<Rightarrow> listing \<Rightarrow> breakdown \<Rightarrow> settings \<Rightarrow> string" where
  "format_message w l b s =
     (case b of (product_cost, buyer_protection_cost, shipping, total_cost,
                 potential_resale_value, profit, margin_percent) \<Rightarrow>
        let currency_symbol =
              (if upper (CURRENCY s) = ''GBP'' then pound_sign else CURRENCY s @ '' '')
        in ''Title: '' @ str_of (title l) @ [CHR 0x0A]
           @ ''Link: '' @ str_of (url l) @ [CHR 0x0A]
           @ ''Condition: '' @ condition_text (condition l) @ [CHR 0x0A, CHR 0x0A]
           @ ''Costs'' @ [CHR 0x0A]
           @ ''Product: '' @ currency_symbol @ fmt2f w product_cost @ [CHR 0x0A]
           @ ''Buyer protection: '' @ currency_symbol @ fmt2f w buyer_protection_cost
           @ [CHR 0x0A]
           @ ''Shipping: '' @ currency_symbol @ fmt2f w shipping @ [CHR 0x0A]
           @ ''Total: '' @ currency_symbol @ fmt2f w total_cost @ [CHR 0x0A, CHR 0x0A]
           @ ''Value'' @ [CHR 0x0A]
           @ ''Potential resale: '' @ currency_symbol @ fmt2f w potential_resale_value
           @ [CHR 0x0A]
           @ ''Profit: '' @ currency_symbol @ fmt2f w profit
           @ ''  ('' @ fmt2f w margin_percent @ ''% )'' @ [CHR 0x0A, CHR 0x0A]
           @ (if fge profit (PROFIT_MIN s) then good_mark @ '' Looks good!''
              else bad_mark @ '' Not profitable enough''))"

text \<open>
  \<open>WhatsAppNotifier.send\<close>: the Cloud API when it is configured; Twilio when the Cloud
  API is not configured or its request failed; \<open>False\<close> when nothing is left. Both
  transports catch their own exceptions, so \<open>send\<close> returns a flag and never raises.
\<close>

definition send :: "world \<Rightarrow> settings \<Rightarrow> string \<Rightarrow> bool" where
  "send w s message =
     (if truthy (WA_PHONE_ID s) \<and> truthy (WA_TOKEN s) \<and> send_cloud w message then True
      else if truthy (TWILIO_ACCOUNT_SID s) \<and> truthy (TWILIO_AUTH_TOKEN s)
              \<and> truthy (TWILIO_WHATSAPP_FROM s)
           then send_twilio w message
      else False)"

section \<open>worker.py\<close>

definition condition_acceptable :: "string \<Rightarrow> bool" where
  "condition_acceptable c =
     (if c = [] then False
      else lower c \<in> set [''new'', ''like new'', ''excellent'', ''very good'', ''good''])"

text \<open>
  The state a cycle changes: the rows of the table \<open>seen\<close>, and the calls made so far
  to the notifier and to \<open>mark_seen\<close>, in order.
\<close>

datatype event = NotifierSend string | MarkSeen string string

record state =
  seen_rows :: "row list"
  calls :: "event list"

definition do_mark_seen :: "world \<Rightarrow> state \<Rightarrow> string \<Rightarrow> string \<Rightarrow> state" where
  "do_mark_seen w st m i =
     st\<lparr>seen_rows := mark_seen (seen_rows st) m i (utcnow w (length (calls st))),
        calls := calls st @ [MarkSeen m i]\<rparr>"

definition do_send :: "state \<Rightarrow> string \<Rightarrow> state" where
  "do_send st message = st\<lparr>calls := calls st @ [NotifierSend message]\<rparr>"

text \<open>
  \<open>re.compile(pattern, re.IGNORECASE) if pattern else None\<close>, and \<open>regex.search(title)\<close>,
  which raises \<open>TypeError\<close> on a title that is \<open>None\<close>.
\<close>

type_synonym regex = "string \<Rightarrow> bool"

definition compile_opt :: "world \<Rightarrow> string option \<Rightarrow> exn + regex option" where
  "compile_opt w p =
     (if truthy p then
        (case re_compile w (or_empty p) of None \<Rightarrow> Inl RegexError | Some r \<Rightarrow> Inr (Some r))
      else Inr None)"

fun regex_search :: "regex \<Rightarrow> string option \<Rightarrow> exn + bool" where
  "regex_search r None = Inl TypeError"
| "regex_search r (Some t) = Inr (r t)"

text \<open>The filters of one listing after the dedup check (the three \<open>continue\<close>s on the
  include pattern, the exclude pattern and the condition).\<close>

datatype verdict = IncludeRejected | ExcludeRejected | ConditionRejected | Accepted

definition filters :: "regex option \<Rightarrow> regex option \<Rightarrow> listing \<Rightarrow> exn + verdict" where
  "filters regex_include regex_exclude l =
     (case (case regex_include of None \<Rightarrow> Inr True | Some r \<Rightarrow> regex_search r (title l)) of
        Inl e \<Rightarrow> Inl e
      | Inr False \<Rightarrow> Inr IncludeRejected
      | Inr True \<Rightarrow>
          (case (case regex_exclude of None \<Rightarrow> Inr False | Some r \<Rightarrow> regex_search r (title l)) of
             Inl e \<Rightarrow> Inl e
           | Inr True \<Rightarrow> Inr ExcludeRejected
           | Inr False \<Rightarrow>
               (let cond = or_empty (get (condition l))
                in if cond \<noteq> [] \<and> \<not> condition_acceptable cond then Inr ConditionRejected
                   else Inr Accepted)))"

text \<open>The threshold decision and what follows it, for a listing that was valued.\<close>

definition decide :: "world \<Rightarrow> settings \<Rightarrow> state \<Rightarrow> listing \<Rightarrow> string \<Rightarrow> breakdown \<Rightarrow> state" where
  "decide w s st l i b =
     (case b of (product_cost, buyer_protection_cost, shipping, total_cost,
                 potential_resale_value, profit, margin_percent) \<Rightarrow>
        if flt profit (PROFIT_MIN s) \<or> flt margin_percent (MARGIN_MIN_PERCENT s)
        then do_mark_seen w st (marketplace l) i
        else let message = format_message w l b s;
                 delivered = send w s message
             in do_mark_seen w (do_send st message) (marketplace l) i)"

text \<open>
  The body of the inner loop of \<open>run_once\<close> for one listing. Every exception it can raise
  is raised before the first call to the notifier or the store, so a failing listing
  leaves the state as it found it.
\<close>

definition process_listing ::
  "world \<Rightarrow> settings \<Rightarrow> regex option \<Rightarrow> regex option \<Rightarrow> state \<Rightarrow> listing \<Rightarrow> exn + state" where
  "process_listing w s regex_include regex_exclude st l =
     (case listing_id l of
        None \<Rightarrow> Inr st
      | Some i \<Rightarrow>
          if i = [] then Inr st
          else if has_seen (seen_rows st) (marketplace l) i then Inr st
          else (case filters regex_include regex_exclude l of
                  Inl e \<Rightarrow> Inl e
                | Inr Accepted \<Rightarrow>
                    (case compute_profit w l s of
                       Inl e \<Rightarrow> Inl e
                     | Inr b \<Rightarrow> Inr (decide w s st l i b))
                | Inr _ \<Rightarrow> Inr st))"

text \<open>The inner loop: an exception leaves the loop and the cycle with the state reached.\<close>

fun run_listings ::
  "world \<Rightarrow> settings \<Rightarrow> regex option \<Rightarrow> regex option \<Rightarrow> state \<Rightarrow> listing list
     \<Rightarrow> state \<times> exn option" where
  "run_listings w s ri rx st [] = (st, None)"
| "run_listings w s ri rx st (l # ls) =
     (case process_listing w s ri rx st l of
        Inl e \<Rightarrow> (st, Some e)
      | Inr st' \<Rightarrow> run_listings w s ri rx st' ls)"

text \<open>The outer loop: a fetcher that raises is logged and skipped.\<close>

fun run_fetchers ::
  "world \<Rightarrow> settings \<Rightarrow> regex option \<Rightarrow> regex option \<Rightarrow> state \<Rightarrow> (exn + listing list) list
     \<Rightarrow> state \<times> exn option" where
  "run_fetchers w s ri rx st [] = (st, None)"
| "run_fetchers w s ri rx st (Inl e # fs) = run_fetchers w s ri rx st fs"
| "run_fetchers w s ri rx st (Inr ls # fs) =
     (case run_listings w s ri rx st ls of
        (st', Some e) \<Rightarrow> (st', Some e)
      | (st', None) \<Rightarrow> run_fetchers w s ri rx st' fs)"

definition fetchers :: "world \<Rightarrow> settings \<Rightarrow> (exn + listing list) list" where
  "fetchers w s =
     (if ENABLE_EBAY s then [ebay_fetch w] else [])
     @ (if ENABLE_VINTED s then [vinted_fetch w] else [])"

definition run_once :: "world \<Rightarrow> settings \<Rightarrow> state \<Rightarrow> state \<times> exn option" where
  "run_once w s st =
     (case compile_opt w (REGEX_INCLUDE s) of
        Inl e \<Rightarrow> (st, Some e)
      | Inr ri \<Rightarrow>
          (case compile_opt w (REGEX_EXCLUDE s) of
             Inl e \<Rightarrow> (st, Some e)
           | Inr rx \<Rightarrow> run_fetchers w s ri rx st (fetchers w s)))"

text \<open>The calls of a trace, by kind.\<close>

fun send_calls :: "event list \<Rightarrow> string list" where
  "send_calls [] = []"
| "send_calls (NotifierSend t # es) = t # send_calls es"
| "send_calls (MarkSeen m i # es) = send_calls es"

fun mark_calls :: "event list \<Rightarrow> (string \<times> string) list" where
  "mark_calls [] = []"
| "mark_calls (NotifierSend t # es) = mark_calls es"
| "mark_calls (MarkSeen m i # es) = (m, i) # mark_calls es"

section \<open>Sample inputs\<close>

text \<open>
  The listing and settings of \<open>test_compute_profit_heuristic\<close> (price 100, shipping 5,
  strategy C, thresholds 10 and 20), completed with the keys a fetcher sets; a world in
  which no message transport is configured or working; and a fresh store.
\<close>

definition ex_listing :: listing where
  "ex_listing =
     \<lparr>marketplace = ''ebay'', listing_id = Some ''42'', title = Some ''Test Club'',
      url = Some ''http://example.com'', brand = Val ''Cobra'', model = Val ''King LTDx'',
      condition = Val ''excellent'', price = Val (Fin 100), shipping_cost = Val (Fin 5)\<rparr>"

definition ex_settings :: settings where
  "ex_settings =
     \<lparr>ENABLE_EBAY = True, ENABLE_VINTED = True, WA_PHONE_ID = None, WA_TOKEN = None,
      TWILIO_ACCOUNT_SID = None, TWILIO_AUTH_TOKEN = None, TWILIO_WHATSAPP_FROM = None,
      PROFIT_MIN = Fin 10, MARGIN_MIN_PERCENT = Fin 20, REGEX_INCLUDE = None,
      REGEX_EXCLUDE = None, CURRENCY = ''GBP'', VALUATION_STRATEGY = ''C'',
      SHIPPING_TABLE_JSON = None\<rparr>"

definition ex_world :: world where
  "ex_world =
     \<lparr>ebay_fetch = Inr [ex_listing],
      vinted_fetch = Inr [ex_listing\<lparr>marketplace := ''vinted'', listing_id := Some ''7''\<rparr>],
      send_cloud = (\<lambda>t. False), send_twilio = (\<lambda>t. False),
      utcnow = (\<lambda>n. ''2024-01-01T00:00:00''),
      re_compile = (\<lambda>p. None), json_loads = (\<lambda>t. None), float_of_str = (\<lambda>t. None),
      fmt2f = (\<lambda>x. ''0.00'')\<rparr>"

definition ex_state :: state where
  "ex_state = \<lparr>seen_rows = [], calls = []\<rparr>"

section \<open>Properties of the dedup store\<close>

lemma row_key_simp [simp]: "row_key (m, i, t) = (m, i)"
  by (simp add: row_key_def)

lemma keys_mark_seen:
  "row_key ` set (mark_seen db m i t) = insert (m, i) (row_key ` set db)"
  by (auto simp: mark_seen_def image_iff)

lemma has_seen_mark_seen:
  "has_seen (mark_seen db m i t) m' i' \<longleftrightarrow> (m', i') = (m, i) \<or> has_seen db m' i'"
  by (simp add: has_seen_def keys_mark_seen)

lemma keys_mark_all:
  "row_key ` set (mark_all db cs) = row_key ` set db \<union> row_key ` set cs"
  by (induction db cs rule: mark_all.induct) (simp_all add: keys_mark_seen)

lemma count_mark_seen:
  "length (filter (\<lambda>r. row_key r = (m, i)) (mark_seen db m i t)) = 1"
  by (simp add: mark_seen_def filter_empty_conv)

text \<open>
  Claim C8. Starting from the empty table, after any sequence of \<open>mark_seen\<close> calls
  \<open>has_seen\<close> answers true for a key exactly when one of the calls was for that key: false
  before any call for it, true from the first one on. Right after \<open>mark_seen\<close> for a key,
  on any table, \<open>has_seen\<close> is true for it. Marking the same key twice leaves exactly one
  row with that key, and the same set of stored keys as marking it once.
\<close>

theorem store_contract:
  "has_seen (mark_all [] cs) m i = ((m, i) \<in> set (map row_key cs))
   \<and> has_seen (mark_seen db m i t) m i
   \<and> length (filter (\<lambda>r. row_key r = (m, i)) (mark_seen (mark_seen db m i t) m i t')) = 1
   \<and> set (map row_key (mark_seen (mark_seen db m i t) m i t'))
       = set (map row_key (mark_seen db m i t))"
  by (simp add: has_seen_def keys_mark_all keys_mark_seen count_mark_seen)

text \<open>
  Claim C10. Marking one key seen leaves the answer of \<open>has_seen\<close> for every other key
  as it was.
\<close>

theorem mark_seen_frame:
  "(m1, i1) \<noteq> (m2, i2) \<Longrightarrow> has_seen (mark_seen db m1 i1 t) m2 i2 = has_seen db m2 i2"
  by (auto simp: has_seen_mark_seen)

theorem mark_seen_frame_witness:
  "(''ebay'', ''1'') \<noteq> (''ebay'', ''2'')
   \<and> has_seen (mark_seen [] ''ebay'' ''1'' ''t'') ''ebay'' ''2'' = has_seen [] ''ebay'' ''2''
   \<and> \<not> has_seen (mark_seen [] ''ebay'' ''1'' ''t'') ''ebay'' ''2''"
  using mark_seen_frame [of "''ebay''" "''1''" "''ebay''" "''2''" "[]" "''t''"]
  by (simp add: has_seen_def)


section \<open>Properties of the valuation\<close>

lemma fl_zero [simp]: "fl 0 = Fin 0"
  by (simp add: fl_def)

lemma round_half_even_zero [simp]: "round_half_even 0 = 0"
  by (simp add: round_half_even_def)

lemma py_round2_zero [simp]: "py_round2 (Fin 0) = Fin 0"
  by simp

lemma fl_twentieth: "fl (1 / 20) = Fin (3602879701896397 / 72057594037927936)"
  by code_simp

lemma buyer_protection_zero [simp]: "compute_buyer_protection_cost (Fin 0) s = Fin 0"
  by (simp add: compute_buyer_protection_cost_def fl_twentieth)

lemma upper_char_idem [simp]: "upper_char (upper_char c) = upper_char c"
proof (cases "97 \<le> (of_char c :: nat) \<and> (of_char c :: nat) \<le> 122")
  case True
  then have eq: "upper_char c = char_of ((of_char c :: nat) - 32)"
    by (simp add: upper_char_def Let_def)
  from True have "(of_char c :: nat) - 32 < 256"
    by arith
  then have "((of_char c :: nat) - 32) mod 256 = of_char c - 32"
    by (rule mod_less)
  moreover from True have "\<not> 97 \<le> (of_char c :: nat) - 32"
    by arith
  ultimately have "upper_char (char_of ((of_char c :: nat) - 32)) = char_of ((of_char c :: nat) - 32)"
    by (simp add: upper_char_def Let_def)
  with eq show ?thesis
    by simp
next
  case False
  then have "upper_char c = c"
    by (auto simp add: upper_char_def Let_def)
  then show ?thesis
    by simp
qed

lemma upper_idem [simp]: "upper (upper t) = upper t"
  by (simp add: upper_def)

lemma upper_A: "upper ''A'' = ''A''" by code_simp
lemma upper_B: "upper ''B'' = ''B''" by code_simp
lemma upper_C: "upper ''C'' = ''C''" by code_simp

text \<open>
  Claim C3. A listing whose \<open>price\<close> key holds \<open>None\<close>, which is what both fetchers
  store for an item without a price, makes \<open>compute_profit\<close> raise \<open>TypeError\<close>, for every
  world and every configuration: the default of \<open>listing.get("price", 0.0)\<close> is not used
  for a key that is present, and \<open>float(None)\<close> raises. The price is treated as \<open>0.0\<close> only
  when the key is missing (lemma \<open>compute_profit_absent_price\<close> below).
\<close>

theorem compute_profit_null_price:
  "compute_profit w (l\<lparr>price := Null\<rparr>) s = Inl TypeError"
  by (simp add: compute_profit_def)

lemma compute_profit_absent_price:
  "\<exists>sc tc. compute_profit w (l\<lparr>price := Absent\<rparr>) s = Inr (Fin 0, Fin 0, sc, tc, Fin 0, Fin 0, Fin 0)"
  by (simp add: compute_profit_def estimate_resale_value_def profit_and_margin_def Let_def)

text \<open>
  Claim C7. For a listing whose \<open>price\<close> key holds \<open>None\<close> the resale value is unresolved
  (\<open>estimate_resale_value\<close> returns \<open>None\<close>, whatever the strategy), yet \<open>compute_profit\<close>
  returns no profit and no margin: it raises \<open>TypeError\<close> before it reaches the policy for
  an unresolved value. For every other listing with an unresolved resale value (strategy
  B without a table match, or a missing price key) the profit and the margin are \<open>0.0\<close>
  (lemma \<open>unresolved_resale_zero_profit\<close> below).
\<close>

theorem unresolved_resale_null_price:
  "estimate_resale_value (l\<lparr>price := Null\<rparr>) s = Inr None
   \<and> compute_profit w (l\<lparr>price := Null\<rparr>) s = Inl TypeError"
  by (simp add: compute_profit_def estimate_resale_value_def)

lemma unresolved_resale_zero_profit:
  assumes "price l \<noteq> Null" "estimate_resale_value l s = Inr None"
  shows "\<exists>pc bpc sc tc. compute_profit w l s = Inr (pc, bpc, sc, tc, Fin 0, Fin 0, Fin 0)"
  using assms
  by (cases "price l") (simp_all add: compute_profit_def profit_and_margin_def Let_def)

text \<open>
  Claim C9. \<open>estimate_resale_value\<close> reads the strategy through \<open>str.upper\<close> only: it
  gives the same result for a strategy string and for its upper-case form, it behaves as
  strategy A, B or C whenever the string upper-cases to that letter, and it raises exactly
  when the listing has a price and the upper-cased string is none of the three.
\<close>

theorem strategy_case_insensitive:
  "estimate_resale_value l (s\<lparr>VALUATION_STRATEGY := upper (VALUATION_STRATEGY s)\<rparr>)
     = estimate_resale_value l s
   \<and> (upper (VALUATION_STRATEGY s) = ''A'' \<longrightarrow>
        estimate_resale_value l s = estimate_resale_value l (s\<lparr>VALUATION_STRATEGY := ''A''\<rparr>))
   \<and> (upper (VALUATION_STRATEGY s) = ''B'' \<longrightarrow>
        estimate_resale_value l s = estimate_resale_value l (s\<lparr>VALUATION_STRATEGY := ''B''\<rparr>))
   \<and> (upper (VALUATION_STRATEGY s) = ''C'' \<longrightarrow>
        estimate_resale_value l s = estimate_resale_value l (s\<lparr>VALUATION_STRATEGY := ''C''\<rparr>))
   \<and> ((\<exists>e. estimate_resale_value l s = Inl e) \<longleftrightarrow>
        get (price l) \<noteq> None \<and> upper (VALUATION_STRATEGY s) \<notin> {''A'', ''B'', ''C''})"
  by (cases "get (price l)") (auto simp: estimate_resale_value_def Let_def upper_A upper_B upper_C)

lemma ex_breakdown:
  "compute_profit ex_world ex_listing ex_settings
     = Inr (Fin 100, Fin 5, Fin 5, Fin 110, Fin 150, Fin 40, fl (3636 / 100))"
  by code_simp

lemma breakdown_100_5_C:
  assumes "price l = Val (Fin 100)" "shipping_cost l = Val (Fin 5)"
    and "VALUATION_STRATEGY s = ''C''"
  shows "compute_profit w l s
           = Inr (Fin 100, Fin 5, Fin 5, Fin 110, Fin 150, Fin 40, fl (3636 / 100))"
proof -
  have "compute_profit w l s = compute_profit ex_world ex_listing ex_settings"
    using assms
    by (simp add: compute_profit_def lookup_shipping_cost_def estimate_resale_value_def
        compute_buyer_protection_cost_def ex_listing_def ex_settings_def upper_C)
  then show ?thesis
    by (simp only: ex_breakdown)
qed

lemma fl_3636: "fl (3636 / 100) = Fin (2558607538299863 / 70368744177664)"
  by code_simp

text \<open>
  Claim C6. For a listing with price 100 and declared shipping cost 5, under strategy C,
  \<open>compute_profit\<close> returns product cost 100.0, buyer protection 5.0, shipping 5.0, total
  cost 110.0, resale value 150.0, profit 40.0 and margin 36.36, the last being the double
  nearest to 36.36 (what the literal \<open>36.36\<close> denotes in the test).
\<close>

theorem compute_profit_test_case:
  assumes "price l = Val (Fin 100)" "shipping_cost l = Val (Fin 5)"
    and "VALUATION_STRATEGY s = ''C''"
  shows "compute_profit w l s
           = Inr (Fin 100, Fin 5, Fin 5, Fin 110, Fin 150, Fin 40, fl (3636 / 100))"
  using assms by (rule breakdown_100_5_C)

theorem compute_profit_test_case_witness:
  "price ex_listing = Val (Fin 100) \<and> shipping_cost ex_listing = Val (Fin 5)
   \<and> VALUATION_STRATEGY ex_settings = ''C''
   \<and> compute_profit ex_world ex_listing ex_settings
       = Inr (Fin 100, Fin 5, Fin 5, Fin 110, Fin 150, Fin 40, fl (3636 / 100))"
  using compute_profit_test_case [of ex_listing ex_settings ex_world]
  by (simp add: ex_listing_def ex_settings_def)

section \<open>Properties of the polling cycle\<close>

lemma fge_not_flt: "fge a b \<Longrightarrow> \<not> flt a b"
  by (cases a; cases b) auto

lemma send_calls_append [simp]: "send_calls (xs @ ys) = send_calls xs @ send_calls ys"
  by (induction xs rule: send_calls.induct) simp_all

lemma mark_calls_append [simp]: "mark_calls (xs @ ys) = mark_calls xs @ mark_calls ys"
  by (induction xs rule: mark_calls.induct) simp_all

lemma decide_notify:
  assumes "fge profit (PROFIT_MIN s)" "fge margin (MARGIN_MIN_PERCENT s)"
  shows "decide w s st l i (pc, bpc, sc, tc, prv, profit, margin)
           = do_mark_seen w (do_send st (format_message w l (pc, bpc, sc, tc, prv, profit, margin) s))
               (marketplace l) i"
  using assms by (simp add: decide_def fge_not_flt Let_def)

lemma decide_suppress:
  assumes "flt profit (PROFIT_MIN s) \<or> flt margin (MARGIN_MIN_PERCENT s)"
  shows "decide w s st l i (pc, bpc, sc, tc, prv, profit, margin) = do_mark_seen w st (marketplace l) i"
  using assms by (auto simp add: decide_def)

lemma process_listing_accepted:
  assumes "listing_id l = Some i" "i \<noteq> []"
    and "\<not> has_seen (seen_rows st) (marketplace l) i"
    and "filters ri rx l = Inr Accepted"
  shows "process_listing w s ri rx st l
           = (case compute_profit w l s of Inl e \<Rightarrow> Inl e | Inr b \<Rightarrow> Inr (decide w s st l i b))"
  using assms by (simp add: process_listing_def)

lemma process_listing_rejected:
  assumes "filters ri rx l = Inr v" "v \<noteq> Accepted"
  shows "process_listing w s ri rx st l = Inr st"
  using assms by (cases v) (simp_all add: process_listing_def split: option.splits)

text \<open>
  Claim C1. A listing with an id that is not yet in the store, that passes the three
  filters and whose profit and margin reach both thresholds is processed without an
  exception, and the calls it adds are exactly one \<open>Notifier.send\<close>, with the formatted
  message, followed by exactly one \<open>mark_seen\<close> for its key. The flag \<open>send\<close> returns does
  not occur in the result: a failed send changes nothing.
\<close>

theorem notify_exactly_once:
  assumes "listing_id l = Some i" "i \<noteq> []"
    and "\<not> has_seen (seen_rows st) (marketplace l) i"
    and "filters ri rx l = Inr Accepted"
    and "compute_profit w l s = Inr (pc, bpc, sc, tc, prv, profit, margin)"
    and "fge profit (PROFIT_MIN s)" "fge margin (MARGIN_MIN_PERCENT s)"
  shows "process_listing w s ri rx st l
           = Inr (st\<lparr>seen_rows := mark_seen (seen_rows st) (marketplace l) i
                                     (utcnow w (Suc (length (calls st)))),
                     calls := calls st
                       @ [NotifierSend (format_message w l (pc, bpc, sc, tc, prv, profit, margin) s),
                          MarkSeen (marketplace l) i]\<rparr>)"
  using assms
  by (simp add: process_listing_accepted decide_notify do_mark_seen_def do_send_def)

text \<open>
  Claim C5. A listing that reaches the threshold decision with a profit below
  \<open>PROFIT_MIN\<close> or a margin below \<open>MARGIN_MIN_PERCENT\<close> adds exactly one call, the
  \<open>mark_seen\<close> for its key; the notifier is not called.
\<close>

theorem suppress_marks_seen:
  assumes "listing_id l = Some i" "i \<noteq> []"
    and "\<not> has_seen (seen_rows st) (marketplace l) i"
    and "filters ri rx l = Inr Accepted"
    and "compute_profit w l s = Inr (pc, bpc, sc, tc, prv, profit, margin)"
    and "flt profit (PROFIT_MIN s) \<or> flt margin (MARGIN_MIN_PERCENT s)"
  shows "process_listing w s ri rx st l
           = Inr (st\<lparr>seen_rows := mark_seen (seen_rows st) (marketplace l) i
                                     (utcnow w (length (calls st))),
                     calls := calls st @ [MarkSeen (marketplace l) i]\<rparr>)"
  using assms
  by (simp add: process_listing_accepted decide_suppress do_mark_seen_def)

lemma decide_marks:
  "mark_calls (calls (decide w s st l i b)) = mark_calls (calls st) @ [(marketplace l, i)]
   \<and> has_seen (seen_rows (decide w s st l i b)) (marketplace l) i"
  by (cases b) (simp add: decide_def do_mark_seen_def do_send_def has_seen_mark_seen Let_def)

text \<open>
  Claim C2, amended. For a listing with an id that is not yet in the store and whose
  processing raises no exception: if it passes the include pattern, the exclude pattern
  and the condition filter, exactly one \<open>mark_seen\<close> call is made, for its key, and
  \<open>has_seen\<close> is true for it afterwards; if one of the three filters rejects it, the state
  is left unchanged (the listing is skipped without being marked seen).
\<close>

theorem marked_seen_iff_accepted:
  assumes "listing_id l = Some i" "i \<noteq> []"
    and "\<not> has_seen (seen_rows st) (marketplace l) i"
    and "process_listing w s ri rx st l = Inr st'"
  shows "(filters ri rx l = Inr Accepted \<longrightarrow>
            mark_calls (calls st') = mark_calls (calls st) @ [(marketplace l, i)]
            \<and> has_seen (seen_rows st') (marketplace l) i)
         \<and> (filters ri rx l \<noteq> Inr Accepted \<longrightarrow> st' = st)"
proof (cases "filters ri rx l")
  case (Inl e)
  with assms show ?thesis
    by (simp add: process_listing_def)
next
  case (Inr v)
  show ?thesis
  proof (cases "v = Accepted")
    case True
    with Inr assms show ?thesis
      by (auto simp add: process_listing_accepted decide_marks split: sum.splits)
  next
    case False
    with Inr assms show ?thesis
      by (simp add: process_listing_rejected)
  qed
qed

lemma run_listings_append:
  "run_listings w s ri rx st (xs @ ys)
     = (case run_listings w s ri rx st xs of
          (st1, None) \<Rightarrow> run_listings w s ri rx st1 ys
        | (st1, Some e) \<Rightarrow> (st1, Some e))"
  by (induction xs arbitrary: st) (simp_all split: sum.splits)

lemma unknown_strategy_raises:
  assumes "upper (VALUATION_STRATEGY s) \<notin> {''A'', ''B'', ''C''}" "price l = Val p"
  shows "compute_profit w l s
           = Inl (ValueError (''Unknown valuation strategy: '' @ upper (VALUATION_STRATEGY s)))"
  using assms by (simp add: compute_profit_def estimate_resale_value_def Let_def)

text \<open>
  Claim C4. With a strategy that upper-cases to none of A, B, C, valuing a listing that
  has a price raises \<open>ValueError\<close>. When such a listing reaches the valuation in the inner
  loop, the exception leaves both loops: the cycle ends with that exception and with the
  state the earlier listings produced, whatever listings and fetchers were still to come.
\<close>

theorem unknown_strategy_stops_cycle:
  assumes "upper (VALUATION_STRATEGY s) \<notin> {''A'', ''B'', ''C''}" "price l = Val p"
    and "run_listings w s ri rx st before = (st1, None)"
    and "listing_id l = Some i" "i \<noteq> []"
    and "\<not> has_seen (seen_rows st1) (marketplace l) i"
    and "filters ri rx l = Inr Accepted"
  shows "compute_profit w l s
           = Inl (ValueError (''Unknown valuation strategy: '' @ upper (VALUATION_STRATEGY s)))
         \<and> run_fetchers w s ri rx st (Inr (before @ l # rest) # later)
           = (st1, Some (ValueError (''Unknown valuation strategy: '' @ upper (VALUATION_STRATEGY s))))"
  using assms
  by (simp add: unknown_strategy_raises run_listings_append process_listing_accepted)

section \<open>The properties on the sample inputs\<close>

lemma lower_excellent: "lower ''excellent'' = ''excellent''" by code_simp
lemma lower_poor: "lower ''poor'' = ''poor''" by code_simp
lemma upper_Z: "upper ''Z'' = ''Z''" by code_simp
lemma upper_b: "upper ''b'' = ''B''" by code_simp
lemma lower_cobra: "lower ''Cobra'' = ''cobra''" by code_simp
lemma lower_king: "lower ''King LTDx'' = ''king ltdx''" by code_simp

lemma ex_filters_accepted: "filters None None ex_listing = Inr Accepted"
  by (simp add: filters_def ex_listing_def condition_acceptable_def lower_excellent)

lemma ex_filters_rejected:
  "filters None None (ex_listing\<lparr>condition := Val ''poor''\<rparr>) = Inr ConditionRejected"
  by (simp add: filters_def ex_listing_def condition_acceptable_def lower_poor)

lemma ex_fresh:
  "listing_id ex_listing = Some ''42'' \<and> marketplace ex_listing = ''ebay''
   \<and> \<not> has_seen (seen_rows ex_state) ''ebay'' ''42''"
  by (simp add: ex_listing_def ex_state_def has_seen_def)

lemma ex_send_fails: "send ex_world ex_settings t = False"
  by (simp add: send_def ex_settings_def)

lemma ex_thresholds_met:
  "fge (Fin 40) (PROFIT_MIN ex_settings)"
  "fge (fl (3636 / 100)) (MARGIN_MIN_PERCENT ex_settings)"
  by code_simp+

theorem notify_exactly_once_witness:
  "listing_id ex_listing = Some ''42'' \<and> ''42'' \<noteq> []
   \<and> \<not> has_seen (seen_rows ex_state) (marketplace ex_listing) ''42''
   \<and> filters None None ex_listing = Inr Accepted
   \<and> fge (Fin 40) (PROFIT_MIN ex_settings) \<and> fge (fl (3636 / 100)) (MARGIN_MIN_PERCENT ex_settings)
   \<and> send ex_world ex_settings
        (format_message ex_world ex_listing
           (Fin 100, Fin 5, Fin 5, Fin 110, Fin 150, Fin 40, fl (3636 / 100)) ex_settings) = False
   \<and> process_listing ex_world ex_settings None None ex_state ex_listing
       = Inr \<lparr>seen_rows = [(''ebay'', ''42'', ''2024-01-01T00:00:00'')],
              calls = [NotifierSend (format_message ex_world ex_listing
                         (Fin 100, Fin 5, Fin 5, Fin 110, Fin 150, Fin 40, fl (3636 / 100))
                         ex_settings),
                       MarkSeen ''ebay'' ''42'']\<rparr>"
proof -
  have thr: "fge (Fin 40) (PROFIT_MIN ex_settings)"
    "fge (fl (3636 / 100)) (MARGIN_MIN_PERCENT ex_settings)"
    by (rule ex_thresholds_met)+
  have fresh: "\<not> has_seen (seen_rows ex_state) (marketplace ex_listing) ''42''"
    using ex_fresh by simp
  have "process_listing ex_world ex_settings None None ex_state ex_listing
          = Inr (ex_state\<lparr>seen_rows := mark_seen (seen_rows ex_state) (marketplace ex_listing) ''42''
                                     (utcnow ex_world (Suc (length (calls ex_state)))),
                     calls := calls ex_state
                       @ [NotifierSend (format_message ex_world ex_listing
                            (Fin 100, Fin 5, Fin 5, Fin 110, Fin 150, Fin 40, fl (3636 / 100))
                            ex_settings),
                          MarkSeen (marketplace ex_listing) ''42'']\<rparr>)"
    using ex_fresh fresh ex_filters_accepted ex_breakdown thr
    by (intro notify_exactly_once) simp_all
  then show ?thesis
    using ex_fresh ex_filters_accepted thr ex_send_fails
    by (simp add: ex_state_def ex_world_def mark_seen_def)
qed

lemma ex_process_notified:
  "process_listing ex_world ex_settings None None ex_state ex_listing
     = Inr \<lparr>seen_rows = [(''ebay'', ''42'', ''2024-01-01T00:00:00'')],
            calls = [NotifierSend (format_message ex_world ex_listing
                       (Fin 100, Fin 5, Fin 5, Fin 110, Fin 150, Fin 40, fl (3636 / 100))
                       ex_settings),
                     MarkSeen ''ebay'' ''42'']\<rparr>"
proof -
  have "process_listing ex_world ex_settings None None ex_state ex_listing
          = Inr (decide ex_world ex_settings ex_state ex_listing ''42''
                   (Fin 100, Fin 5, Fin 5, Fin 110, Fin 150, Fin 40, fl (3636 / 100)))"
    using ex_fresh ex_filters_accepted
    by (simp add: process_listing_accepted ex_breakdown)
  also have "decide ex_world ex_settings ex_state ex_listing ''42''
                   (Fin 100, Fin 5, Fin 5, Fin 110, Fin 150, Fin 40, fl (3636 / 100))
          = do_mark_seen ex_world (do_send ex_state (format_message ex_world ex_listing
                       (Fin 100, Fin 5, Fin 5, Fin 110, Fin 150, Fin 40, fl (3636 / 100))
                       ex_settings)) (marketplace ex_listing) ''42''"
    by (rule decide_notify) (rule ex_thresholds_met)+
  finally show ?thesis
    using ex_fresh
    by (simp add: do_mark_seen_def do_send_def ex_state_def ex_world_def mark_seen_def)
qed

lemma ex_process_rejected:
  "process_listing ex_world ex_settings None None ex_state (ex_listing\<lparr>condition := Val ''poor''\<rparr>)
     = Inr ex_state"
  using ex_filters_rejected by (rule process_listing_rejected) simp

theorem suppress_marks_seen_witness:
  "listing_id ex_listing = Some ''42'' \<and> ''42'' \<noteq> []
   \<and> \<not> has_seen (seen_rows ex_state) (marketplace ex_listing) ''42''
   \<and> filters None None ex_listing = Inr Accepted
   \<and> compute_profit ex_world ex_listing (ex_settings\<lparr>PROFIT_MIN := Fin 50\<rparr>)
       = Inr (Fin 100, Fin 5, Fin 5, Fin 110, Fin 150, Fin 40, fl (3636 / 100))
   \<and> flt (Fin 40) (PROFIT_MIN (ex_settings\<lparr>PROFIT_MIN := Fin 50\<rparr>))
   \<and> process_listing ex_world (ex_settings\<lparr>PROFIT_MIN := Fin 50\<rparr>) None None ex_state ex_listing
       = Inr \<lparr>seen_rows = [(''ebay'', ''42'', ''2024-01-01T00:00:00'')],
              calls = [MarkSeen ''ebay'' ''42'']\<rparr>"
proof -
  have bd: "compute_profit ex_world ex_listing (ex_settings\<lparr>PROFIT_MIN := Fin 50\<rparr>)
       = Inr (Fin 100, Fin 5, Fin 5, Fin 110, Fin 150, Fin 40, fl (3636 / 100))"
    by (rule breakdown_100_5_C) (simp_all add: ex_listing_def ex_settings_def)
  have low: "flt (Fin 40) (PROFIT_MIN (ex_settings\<lparr>PROFIT_MIN := Fin 50\<rparr>))
             \<or> flt (fl (3636 / 100)) (MARGIN_MIN_PERCENT (ex_settings\<lparr>PROFIT_MIN := Fin 50\<rparr>))"
    by simp
  have fresh: "\<not> has_seen (seen_rows ex_state) (marketplace ex_listing) ''42''"
    using ex_fresh by simp
  have "process_listing ex_world (ex_settings\<lparr>PROFIT_MIN := Fin 50\<rparr>) None None ex_state ex_listing
          = Inr (ex_state\<lparr>seen_rows := mark_seen (seen_rows ex_state) (marketplace ex_listing) ''42''
                                     (utcnow ex_world (length (calls ex_state))),
                     calls := calls ex_state @ [MarkSeen (marketplace ex_listing) ''42'']\<rparr>)"
    using ex_fresh by (intro suppress_marks_seen [OF _ _ fresh ex_filters_accepted bd low]) simp_all
  then show ?thesis
    using ex_fresh ex_filters_accepted bd
    by (simp add: ex_state_def ex_world_def mark_seen_def)
qed

text \<open>
  Claim C2, as stated, fails. The sample listing with the condition \<open>poor\<close> has an id, is
  not in the store, is rejected by the condition filter, and is processed without an
  exception; the state afterwards is the state before: no \<open>mark_seen\<close> call was made and
  \<open>has_seen\<close> is still false for its key.
\<close>

theorem filtered_listing_not_marked:
  "listing_id (ex_listing\<lparr>condition := Val ''poor''\<rparr>) = Some ''42''
   \<and> \<not> has_seen (seen_rows ex_state) (marketplace (ex_listing\<lparr>condition := Val ''poor''\<rparr>)) ''42''
   \<and> filters None None (ex_listing\<lparr>condition := Val ''poor''\<rparr>) = Inr ConditionRejected
   \<and> process_listing ex_world ex_settings None None ex_state (ex_listing\<lparr>condition := Val ''poor''\<rparr>)
       = Inr ex_state
   \<and> mark_calls (calls ex_state) = []
   \<and> \<not> has_seen (seen_rows ex_state) ''ebay'' ''42''"
  using ex_fresh ex_filters_rejected ex_process_rejected
  by (simp add: ex_state_def)

theorem marked_seen_iff_accepted_witness:
  "listing_id ex_listing = Some ''42'' \<and> ''42'' \<noteq> []
   \<and> \<not> has_seen (seen_rows ex_state) (marketplace ex_listing) ''42''
   \<and> filters None None ex_listing = Inr Accepted
   \<and> process_listing ex_world ex_settings None None ex_state ex_listing
       = Inr \<lparr>seen_rows = [(''ebay'', ''42'', ''2024-01-01T00:00:00'')],
              calls = [NotifierSend (format_message ex_world ex_listing
                         (Fin 100, Fin 5, Fin 5, Fin 110, Fin 150, Fin 40, fl (3636 / 100))
                         ex_settings),
                       MarkSeen ''ebay'' ''42'']\<rparr>
   \<and> mark_calls [NotifierSend (format_message ex_world ex_listing
                         (Fin 100, Fin 5, Fin 5, Fin 110, Fin 150, Fin 40, fl (3636 / 100))
                         ex_settings),
                   MarkSeen ''ebay'' ''42'']
       = mark_calls (calls ex_state) @ [(''ebay'', ''42'')]
   \<and> has_seen [(''ebay'', ''42'', ''2024-01-01T00:00:00'')] ''ebay'' ''42''"
proof -
  have fresh: "\<not> has_seen (seen_rows ex_state) (marketplace ex_listing) ''42''"
    using ex_fresh by simp
  from marked_seen_iff_accepted [of ex_listing "''42''" ex_state ex_world ex_settings None None,
      OF _ _ fresh ex_process_notified]
  show ?thesis
    using ex_fresh ex_filters_accepted ex_process_notified
    by (simp add: ex_state_def)
qed

theorem unknown_strategy_stops_cycle_witness:
  "upper (VALUATION_STRATEGY (ex_settings\<lparr>VALUATION_STRATEGY := ''Z''\<rparr>)) \<notin> {''A'', ''B'', ''C''}
   \<and> price ex_listing = Val (Fin 100)
   \<and> compute_profit ex_world ex_listing (ex_settings\<lparr>VALUATION_STRATEGY := ''Z''\<rparr>)
       = Inl (ValueError ''Unknown valuation strategy: Z'')
   \<and> run_once ex_world (ex_settings\<lparr>VALUATION_STRATEGY := ''Z''\<rparr>) ex_state
       = (ex_state, Some (ValueError ''Unknown valuation strategy: Z''))"
proof -
  let ?s = "ex_settings\<lparr>VALUATION_STRATEGY := ''Z''\<rparr>"
  have unk: "upper (VALUATION_STRATEGY ?s) \<notin> {''A'', ''B'', ''C''}"
    by (simp add: upper_Z)
  have pr: "price ex_listing = Val (Fin 100)"
    by (simp add: ex_listing_def)
  have pre: "run_listings ex_world ?s None None ex_state [] = (ex_state, None)"
    by simp
  have fresh: "\<not> has_seen (seen_rows ex_state) (marketplace ex_listing) ''42''"
    using ex_fresh by simp
  have id: "listing_id ex_listing = Some ''42''" "''42'' \<noteq> []"
    using ex_fresh by simp_all
  have once: "run_once ex_world ?s ex_state
          = run_fetchers ex_world ?s None None ex_state
              (Inr ([] @ ex_listing # []) # [vinted_fetch ex_world])"
    by (simp add: run_once_def compile_opt_def fetchers_def ex_settings_def ex_world_def)
  from unknown_strategy_stops_cycle [OF unk pr pre id fresh ex_filters_accepted,
      of "[]" "[vinted_fetch ex_world]"]
  show ?thesis
    using unk pr once by (simp add: upper_Z)
qed

theorem strategy_case_insensitive_witness:
  "upper (VALUATION_STRATEGY (ex_settings\<lparr>VALUATION_STRATEGY := ''b''\<rparr>)) = ''B''
   \<and> estimate_resale_value ex_listing (ex_settings\<lparr>VALUATION_STRATEGY := ''b''\<rparr>)
       = estimate_resale_value ex_listing (ex_settings\<lparr>VALUATION_STRATEGY := ''B''\<rparr>)
   \<and> estimate_resale_value ex_listing (ex_settings\<lparr>VALUATION_STRATEGY := ''b''\<rparr>)
       = Inr (Some (Fin 130))"
proof -
  let ?s = "ex_settings\<lparr>VALUATION_STRATEGY := ''b''\<rparr>"
  have up: "upper (VALUATION_STRATEGY ?s) = ''B''"
    by (simp add: upper_b)
  with strategy_case_insensitive [of ex_listing ?s]
  have eq: "estimate_resale_value ex_listing ?s
          = estimate_resale_value ex_listing (?s\<lparr>VALUATION_STRATEGY := ''B''\<rparr>)"
    by blast
  have "estimate_resale_value ex_listing (ex_settings\<lparr>VALUATION_STRATEGY := ''B''\<rparr>)
          = Inr (Some (Fin 130))"
    by (simp add: estimate_resale_value_def ex_listing_def upper_B lower_cobra lower_king
        static_prices_def)
  with up eq show ?thesis
    by simp
qed

end
